theory Spec2Isabelle
  imports Main
begin

section \<open>The handle cache of UnixDomainSocketAddress.c\<close>

text \<open>
  The file \<^verbatim>\<open>src/java.base/share/native/libnio/ch/UnixDomainSocketAddress.c\<close> holds
  three file-scope handles, a file-scope flag and one exported function:
  \<^verbatim>\<open>
  jclass udsa_class;
  jmethodID udsa_ctorID;
  jfieldID udsa_pathID;

  static int udsa_initialized = 0;

  JNIEXPORT void JNICALL
  Java_java_nio_channels_UnixDomainSocketAddress_init(JNIEnv *env, jclass dontuse) {
      if (!udsa_initialized) {
          jclass c = (*env)->FindClass(env,"java/nio/channels/UnixDomainSocketAddress");
          CHECK_NULL(c);
          udsa_class = (*env)->NewGlobalRef(env, c);
          CHECK_NULL(udsa_class);

          udsa_pathID = (*env)->GetFieldID(env, udsa_class, "pathname", "Ljava/lang/String;");
          CHECK_NULL(udsa_pathID);

          udsa_ctorID = (*env)->GetMethodID(env, udsa_class, "<init>", "(Ljava/lang/String;)V");
          CHECK_NULL(udsa_ctorID);

          udsa_initialized = 1;
      }
  }
  \<close>
\<close>

subsection \<open>Data\<close>

text \<open>
  \<^verbatim>\<open>jclass\<close>, \<^verbatim>\<open>jobject\<close>, \<^verbatim>\<open>jfieldID\<close> and \<^verbatim>\<open>jmethodID\<close> are pointers to opaque
  structures of the runtime. The code only stores them and compares them with
  \<^verbatim>\<open>NULL\<close>, so a pointer is either \<open>NULL\<close> or an address.
\<close>

datatype jptr = NULL | Ptr nat

type_synonym jobject = jptr
type_synonym jclass = jptr
type_synonym jfieldID = jptr
type_synonym jmethodID = jptr

text \<open>
  \<^verbatim>\<open>JNIEnv\<close> is the runtime's function table. The code calls four of its entries,
  each at most once per call of the entry point, so within one call an entry is a
  function of its arguments. Different calls of the entry point may be given tables
  that answer differently (a class that could not be found may be found later).
\<close>

record JNIEnv =
  FindClass :: "string \<Rightarrow> jclass"
  NewGlobalRef :: "jobject \<Rightarrow> jobject"
  GetFieldID :: "jclass \<Rightarrow> string \<Rightarrow> string \<Rightarrow> jfieldID"
  GetMethodID :: "jclass \<Rightarrow> string \<Rightarrow> string \<Rightarrow> jmethodID"

text \<open>
  What a call does that is visible outside it, in program order: the calls into the
  runtime with their arguments, and the stores to the file-scope variables with the
  value stored. \<open>Call_DeleteGlobalRef\<close> is the runtime entry that releases a global
  reference; the source never calls it, and it is listed so that this can be said.
\<close>

datatype event =
    Call_FindClass string
  | Call_NewGlobalRef jobject
  | Call_GetFieldID jclass string string
  | Call_GetMethodID jclass string string
  | Call_DeleteGlobalRef jobject
  | Store_udsa_class jclass
  | Store_udsa_pathID jfieldID
  | Store_udsa_ctorID jmethodID
  | Store_udsa_initialized int

text \<open>
  The file-scope variables, with the history of events so far. \<^verbatim>\<open>udsa_initialized\<close>
  is a C \<^verbatim>\<open>int\<close>; it only ever holds 0 or 1.
\<close>

record udsa_state =
  udsa_class :: jclass
  udsa_ctorID :: jmethodID
  udsa_pathID :: jfieldID
  udsa_initialized :: int
  trace :: "event list"

text \<open>
  Objects of static storage duration without an initializer start as null pointers;
  \<^verbatim>\<open>udsa_initialized\<close> is initialized to 0.
\<close>

definition initial_state :: udsa_state where
  "initial_state =
     \<lparr>udsa_class = NULL, udsa_ctorID = NULL, udsa_pathID = NULL,
      udsa_initialized = 0, trace = []\<rparr>"

text \<open>
  The function returns \<^verbatim>\<open>void\<close>. It leaves either by falling off its end or by the
  early \<^verbatim>\<open>return\<close> inside \<^verbatim>\<open>CHECK_NULL\<close>, taken when a runtime lookup has answered
  \<^verbatim>\<open>NULL\<close>; the early return is the error \<open>LookupError\<close> of the model.
\<close>

datatype error = LookupError

type_synonym outcome = "error + unit"

subsection \<open>Operations\<close>

definition log :: "event \<Rightarrow> udsa_state \<Rightarrow> udsa_state" where
  "log e s = s\<lparr>trace := trace s @ [e]\<rparr>"

text \<open>
  Modelled from the spec: the macro \<^verbatim>\<open>CHECK_NULL\<close> comes from a header that is not part
  of the sources at hand. The specification says of every lookup that a failure must
  short-circuit the remaining steps and that the call fails with \<open>LookupError\<close>:
  when the pointer is \<^verbatim>\<open>NULL\<close> the function returns at once, with the state as it is at
  that point; otherwise execution continues with the rest of the body.
\<close>

definition CHECK_NULL ::
  "jptr \<Rightarrow> udsa_state \<Rightarrow> outcome \<times> udsa_state \<Rightarrow> outcome \<times> udsa_state" where
  "CHECK_NULL x s rest = (if x = NULL then (Inl LookupError, s) else rest)"

definition Java_java_nio_channels_UnixDomainSocketAddress_init ::
  "JNIEnv \<Rightarrow> jclass \<Rightarrow> udsa_state \<Rightarrow> outcome \<times> udsa_state" where
  "Java_java_nio_channels_UnixDomainSocketAddress_init env dontuse s0 =
     (if udsa_initialized s0 = 0 then
        let c = FindClass env ''java/nio/channels/UnixDomainSocketAddress'';
            s1 = log (Call_FindClass ''java/nio/channels/UnixDomainSocketAddress'') s0
        in CHECK_NULL c s1
          (let g = NewGlobalRef env c;
               s2 = log (Store_udsa_class g)
                      ((log (Call_NewGlobalRef c) s1)\<lparr>udsa_class := g\<rparr>)
           in CHECK_NULL (udsa_class s2) s2
             (let f = GetFieldID env (udsa_class s2) ''pathname'' ''Ljava/lang/String;'';
                  s3 = log (Store_udsa_pathID f)
                         ((log (Call_GetFieldID (udsa_class s2)
                                  ''pathname'' ''Ljava/lang/String;'') s2)
                          \<lparr>udsa_pathID := f\<rparr>)
              in CHECK_NULL (udsa_pathID s3) s3
                (let m = GetMethodID env (udsa_class s3) ''<init>'' ''(Ljava/lang/String;)V'';
                     s4 = log (Store_udsa_ctorID m)
                            ((log (Call_GetMethodID (udsa_class s3)
                                     ''<init>'' ''(Ljava/lang/String;)V'') s3)
                             \<lparr>udsa_ctorID := m\<rparr>)
                 in CHECK_NULL (udsa_ctorID s4) s4
                   (Inr (), log (Store_udsa_initialized 1)
                              (s4\<lparr>udsa_initialized := 1\<rparr>)))))
      else (Inr (), s0))"

text \<open>
  The entry point called several times in a row, each call with the table and the
  argument the runtime gives it; the outcomes are collected and the state is threaded
  through. A failed call does not stop the later ones.
\<close>

fun calls ::
  "(JNIEnv \<times> jclass) list \<Rightarrow> udsa_state \<Rightarrow> outcome list \<times> udsa_state" where
  "calls [] s = ([], s)"
| "calls ((env, dontuse) # rest) s =
     (let (r, s') = Java_java_nio_channels_UnixDomainSocketAddress_init env dontuse s;
          (rs, s'') = calls rest s'
      in (r # rs, s''))"

text \<open>The states the program can be in: the initial one, and any state after a call.\<close>

inductive reachable :: "udsa_state \<Rightarrow> bool" where
  reachable_initial: "reachable initial_state"
| reachable_call:
    "reachable s \<Longrightarrow>
     reachable (snd (Java_java_nio_channels_UnixDomainSocketAddress_init env dontuse s))"

subsection \<open>What the runtime answers on one call\<close>

text \<open>
  Names for the four answers a table gives along the body of the function: the class
  found by name, the global reference made from it, and the field and the constructor
  looked up on that global reference.
\<close>

definition found_class :: "JNIEnv \<Rightarrow> jclass" where
  "found_class env = FindClass env ''java/nio/channels/UnixDomainSocketAddress''"

definition global_class :: "JNIEnv \<Rightarrow> jclass" where
  "global_class env = NewGlobalRef env (found_class env)"

definition found_field :: "JNIEnv \<Rightarrow> jfieldID" where
  "found_field env = GetFieldID env (global_class env) ''pathname'' ''Ljava/lang/String;''"

definition found_ctor :: "JNIEnv \<Rightarrow> jmethodID" where
  "found_ctor env = GetMethodID env (global_class env) ''<init>'' ''(Ljava/lang/String;)V''"

text \<open>The events of a call on which every step succeeds, in program order.\<close>

definition full_events :: "JNIEnv \<Rightarrow> event list" where
  "full_events env =
     [Call_FindClass ''java/nio/channels/UnixDomainSocketAddress'',
      Call_NewGlobalRef (found_class env),
      Store_udsa_class (global_class env),
      Call_GetFieldID (global_class env) ''pathname'' ''Ljava/lang/String;'',
      Store_udsa_pathID (found_field env),
      Call_GetMethodID (global_class env) ''<init>'' ''(Ljava/lang/String;)V'',
      Store_udsa_ctorID (found_ctor env),
      Store_udsa_initialized 1]"

text \<open>Recognisers for the events that the properties below count.\<close>

fun is_Call_FindClass :: "event \<Rightarrow> bool" where
  "is_Call_FindClass (Call_FindClass n) = True"
| "is_Call_FindClass e = False"

fun is_Call_GetFieldID :: "event \<Rightarrow> bool" where
  "is_Call_GetFieldID (Call_GetFieldID c n sig) = True"
| "is_Call_GetFieldID e = False"

fun is_Call_GetMethodID :: "event \<Rightarrow> bool" where
  "is_Call_GetMethodID (Call_GetMethodID c n sig) = True"
| "is_Call_GetMethodID e = False"

fun is_Call_DeleteGlobalRef :: "event \<Rightarrow> bool" where
  "is_Call_DeleteGlobalRef (Call_DeleteGlobalRef r) = True"
| "is_Call_DeleteGlobalRef e = False"

fun is_Store_udsa_initialized :: "event \<Rightarrow> bool" where
  "is_Store_udsa_initialized (Store_udsa_initialized v) = True"
| "is_Store_udsa_initialized e = False"

subsection \<open>Concrete runtimes\<close>

text \<open>
  A runtime in which the class, its field and its constructor exist, and variants of it
  in which one step fails. \<open>env_ok'\<close> answers with other addresses than \<open>env_ok\<close>.
\<close>

definition env_ok :: JNIEnv where
  "env_ok =
     \<lparr>FindClass = (\<lambda>n. if n = ''java/nio/channels/UnixDomainSocketAddress''
                         then Ptr 1 else NULL),
      NewGlobalRef = (\<lambda>r. case r of NULL \<Rightarrow> NULL | Ptr a \<Rightarrow> Ptr (a + 100)),
      GetFieldID = (\<lambda>c n sig. if c = Ptr 101 \<and> n = ''pathname'' \<and> sig = ''Ljava/lang/String;''
                               then Ptr 7 else NULL),
      GetMethodID = (\<lambda>c n sig. if c = Ptr 101 \<and> n = ''<init>'' \<and> sig = ''(Ljava/lang/String;)V''
                                then Ptr 9 else NULL)\<rparr>"

definition env_ok' :: JNIEnv where
  "env_ok' =
     \<lparr>FindClass = (\<lambda>n. if n = ''java/nio/channels/UnixDomainSocketAddress''
                         then Ptr 2 else NULL),
      NewGlobalRef = (\<lambda>r. case r of NULL \<Rightarrow> NULL | Ptr a \<Rightarrow> Ptr (a + 200)),
      GetFieldID = (\<lambda>c n sig. if c = Ptr 202 \<and> n = ''pathname'' \<and> sig = ''Ljava/lang/String;''
                               then Ptr 17 else NULL),
      GetMethodID = (\<lambda>c n sig. if c = Ptr 202 \<and> n = ''<init>'' \<and> sig = ''(Ljava/lang/String;)V''
                                then Ptr 19 else NULL)\<rparr>"

definition env_no_class :: JNIEnv where
  "env_no_class = env_ok\<lparr>FindClass := (\<lambda>n. NULL)\<rparr>"

definition env_no_global :: JNIEnv where
  "env_no_global = env_ok\<lparr>NewGlobalRef := (\<lambda>r. NULL)\<rparr>"

definition env_no_field :: JNIEnv where
  "env_no_field = env_ok\<lparr>GetFieldID := (\<lambda>c n sig. NULL)\<rparr>"

definition env_no_ctor :: JNIEnv where
  "env_no_ctor = env_ok\<lparr>GetMethodID := (\<lambda>c n sig. NULL)\<rparr>"

text \<open>
  The states after one call from the initial state: with everything found, with the
  field missing, and with the constructor missing.
\<close>

definition after_success :: udsa_state where
  "after_success =
     snd (Java_java_nio_channels_UnixDomainSocketAddress_init env_ok NULL initial_state)"

definition after_failed_field_lookup :: udsa_state where
  "after_failed_field_lookup =
     snd (Java_java_nio_channels_UnixDomainSocketAddress_init env_no_field NULL initial_state)"

definition after_failed_ctor_lookup :: udsa_state where
  "after_failed_ctor_lookup =
     snd (Java_java_nio_channels_UnixDomainSocketAddress_init env_no_ctor NULL initial_state)"

section \<open>Properties\<close>

subsection \<open>The body, case by case\<close>

lemmas answers = found_class_def global_class_def found_field_def found_ctor_def

lemmas body =
  Java_java_nio_channels_UnixDomainSocketAddress_init_def CHECK_NULL_def log_def Let_def

lemmas concrete =
  env_ok_def env_ok'_def env_no_class_def env_no_global_def env_no_field_def env_no_ctor_def
  initial_state_def after_success_def after_failed_field_lookup_def
  after_failed_ctor_lookup_def

lemma init_done:
  "udsa_initialized s \<noteq> 0 \<Longrightarrow>
   Java_java_nio_channels_UnixDomainSocketAddress_init env dontuse s = (Inr (), s)"
  by (simp add: body)

lemma init_no_class:
  "udsa_initialized s = 0 \<Longrightarrow> found_class env = NULL \<Longrightarrow>
   Java_java_nio_channels_UnixDomainSocketAddress_init env dontuse s =
     (Inl LookupError, s\<lparr>trace := trace s @ take 1 (full_events env)\<rparr>)"
  by (simp add: body answers full_events_def)

lemma init_no_global:
  "udsa_initialized s = 0 \<Longrightarrow> found_class env \<noteq> NULL \<Longrightarrow> global_class env = NULL \<Longrightarrow>
   Java_java_nio_channels_UnixDomainSocketAddress_init env dontuse s =
     (Inl LookupError,
      s\<lparr>udsa_class := NULL, trace := trace s @ take 3 (full_events env)\<rparr>)"
  by (simp add: body answers full_events_def)

lemma init_no_field:
  "udsa_initialized s = 0 \<Longrightarrow> found_class env \<noteq> NULL \<Longrightarrow> global_class env \<noteq> NULL \<Longrightarrow>
   found_field env = NULL \<Longrightarrow>
   Java_java_nio_channels_UnixDomainSocketAddress_init env dontuse s =
     (Inl LookupError,
      s\<lparr>udsa_class := global_class env, udsa_pathID := NULL,
        trace := trace s @ take 5 (full_events env)\<rparr>)"
  by (simp add: body answers full_events_def)

lemma init_no_ctor:
  "udsa_initialized s = 0 \<Longrightarrow> found_class env \<noteq> NULL \<Longrightarrow> global_class env \<noteq> NULL \<Longrightarrow>
   found_field env \<noteq> NULL \<Longrightarrow> found_ctor env = NULL \<Longrightarrow>
   Java_java_nio_channels_UnixDomainSocketAddress_init env dontuse s =
     (Inl LookupError,
      s\<lparr>udsa_class := global_class env, udsa_ctorID := NULL, udsa_pathID := found_field env,
        trace := trace s @ take 7 (full_events env)\<rparr>)"
  by (simp add: body answers full_events_def)

lemma init_all_found:
  "udsa_initialized s = 0 \<Longrightarrow> found_class env \<noteq> NULL \<Longrightarrow> global_class env \<noteq> NULL \<Longrightarrow>
   found_field env \<noteq> NULL \<Longrightarrow> found_ctor env \<noteq> NULL \<Longrightarrow>
   Java_java_nio_channels_UnixDomainSocketAddress_init env dontuse s =
     (Inr (),
      s\<lparr>udsa_class := global_class env, udsa_ctorID := found_ctor env,
        udsa_pathID := found_field env, udsa_initialized := 1,
        trace := trace s @ full_events env\<rparr>)"
  by (simp add: body answers full_events_def)

text \<open>A call that reports an error was made with the flag clear, and leaves it clear.\<close>

lemma init_error_flag:
  assumes "Java_java_nio_channels_UnixDomainSocketAddress_init env dontuse s = (Inl e, s')"
  shows "udsa_initialized s = 0 \<and> udsa_initialized s' = 0"
proof (cases "udsa_initialized s = 0")
  case False
  with assms show ?thesis by (simp add: init_done)
next
  case True
  with assms show ?thesis
    by (auto simp: body split: if_splits)
qed

text \<open>Once the flag is set, no sequence of calls does anything.\<close>

lemma calls_done:
  "udsa_initialized s \<noteq> 0 \<Longrightarrow> calls cs s = (replicate (length cs) (Inr ()), s)"
proof (induction cs)
  case Nil
  show ?case by simp
next
  case (Cons a cs)
  obtain env dontuse where a: "a = (env, dontuse)" by (cases a)
  from Cons show ?case by (simp add: a init_done)
qed

lemma calls_reachable: "reachable s \<Longrightarrow> reachable (snd (calls cs s))"
proof (induction cs arbitrary: s)
  case Nil
  then show ?case by simp
next
  case (Cons a cs)
  obtain env dontuse where a: "a = (env, dontuse)" by (cases a)
  have "reachable (snd (Java_java_nio_channels_UnixDomainSocketAddress_init env dontuse s))"
    using Cons.prems by (rule reachable_call)
  from Cons.IH [OF this] show ?case
    by (auto simp: a split: prod.splits)
qed

text \<open>
  The invariant behind the claims on reachable states: with the flag clear, the flag has
  never been stored and \<open>udsa_ctorID\<close> is null; otherwise the flag is 1, was stored
  once, and the handles are not null.
\<close>

lemma reachable_invariant:
  "reachable s \<Longrightarrow>
   (udsa_initialized s = 0 \<and> udsa_ctorID s = NULL \<and>
    filter is_Store_udsa_initialized (trace s) = []) \<or>
   (udsa_initialized s = 1 \<and> udsa_class s \<noteq> NULL \<and> udsa_pathID s \<noteq> NULL \<and>
    udsa_ctorID s \<noteq> NULL \<and>
    filter is_Store_udsa_initialized (trace s) = [Store_udsa_initialized 1])"
proof (induction rule: reachable.induct)
  case reachable_initial
  show ?case by (simp add: initial_state_def)
next
  case (reachable_call s env dontuse)
  show ?case
  proof (cases "udsa_initialized s = 0")
    case False
    with reachable_call.IH show ?thesis by (simp add: init_done)
  next
    case flag: True
    with reachable_call.IH
    have no_store: "filter is_Store_udsa_initialized (trace s) = []" "udsa_ctorID s = NULL"
      by simp_all
    consider
      (no_class) "found_class env = NULL"
      | (no_global) "found_class env \<noteq> NULL" "global_class env = NULL"
      | (no_field) "found_class env \<noteq> NULL" "global_class env \<noteq> NULL" "found_field env = NULL"
      | (no_ctor) "found_class env \<noteq> NULL" "global_class env \<noteq> NULL"
          "found_field env \<noteq> NULL" "found_ctor env = NULL"
      | (all_found) "found_class env \<noteq> NULL" "global_class env \<noteq> NULL"
          "found_field env \<noteq> NULL" "found_ctor env \<noteq> NULL"
      by blast
    then show ?thesis
    proof cases
      case no_class
      with flag no_store show ?thesis by (simp add: init_no_class full_events_def)
    next
      case no_global
      with flag no_store show ?thesis by (simp add: init_no_global full_events_def)
    next
      case no_field
      with flag no_store show ?thesis by (simp add: init_no_field full_events_def)
    next
      case no_ctor
      with flag no_store show ?thesis by (simp add: init_no_ctor full_events_def)
    next
      case all_found
      with flag no_store show ?thesis by (simp add: init_all_found full_events_def)
    qed
  qed
qed

subsection \<open>The claims\<close>

text \<open>
  C1 (as amended). In every state reachable by calling the entry point any number of
  times, either the flag is clear and \<open>udsa_ctorID\<close> is unresolved (null), or the flag
  is 1 and the three handles \<open>udsa_class\<close>, \<open>udsa_pathID\<close> and \<open>udsa_ctorID\<close> are
  all resolved and non-null. So the three handles are all resolved exactly when the
  flag is set. With the flag clear, \<open>udsa_class\<close> and \<open>udsa_pathID\<close> need not be
  null: they hold whatever failed attempts stored.
\<close>

theorem handles_all_resolved_iff_flag_set:
  "reachable s \<Longrightarrow>
   ((udsa_initialized s = 0 \<and> udsa_ctorID s = NULL) \<or>
    (udsa_initialized s = 1 \<and> udsa_class s \<noteq> NULL \<and> udsa_pathID s \<noteq> NULL \<and>
     udsa_ctorID s \<noteq> NULL)) \<and>
   ((udsa_initialized s = 1) =
    (udsa_class s \<noteq> NULL \<and> udsa_pathID s \<noteq> NULL \<and> udsa_ctorID s \<noteq> NULL))"
  using reachable_invariant [of s] by auto

theorem handles_all_resolved_iff_flag_set_witness:
  "reachable after_success \<and>
   udsa_initialized after_success = 1 \<and> udsa_class after_success \<noteq> NULL \<and>
   udsa_pathID after_success \<noteq> NULL \<and> udsa_ctorID after_success \<noteq> NULL \<and>
   reachable after_failed_ctor_lookup \<and>
   udsa_initialized after_failed_ctor_lookup = 0 \<and>
   udsa_class after_failed_ctor_lookup = Ptr 101 \<and>
   udsa_pathID after_failed_ctor_lookup = Ptr 7 \<and>
   udsa_ctorID after_failed_ctor_lookup = NULL"
proof -
  have r: "reachable after_success"
    unfolding after_success_def by (intro reachable.intros)
  have r': "reachable after_failed_ctor_lookup"
    unfolding after_failed_ctor_lookup_def by (intro reachable.intros)
  have set_flag: "udsa_initialized after_success = 1"
    by (simp add: concrete body)
  have clear: "udsa_initialized after_failed_ctor_lookup = 0"
    "udsa_class after_failed_ctor_lookup = Ptr 101"
    "udsa_pathID after_failed_ctor_lookup = Ptr 7"
    by (simp_all add: concrete body)
  from handles_all_resolved_iff_flag_set [OF r] handles_all_resolved_iff_flag_set [OF r']
    r r' set_flag clear
  show ?thesis by simp
qed

text \<open>
  C1 as stated fails: after one call on which the class is found and made global but
  the field is not found, the flag is clear and \<open>udsa_class\<close> holds the global
  reference, so the handles are neither all unresolved nor all resolved. (After a call
  on which only the constructor is not found, \<open>udsa_pathID\<close> is set as well, as the
  instance above shows.)
\<close>

theorem handles_partly_resolved_counterexample:
  "reachable after_failed_field_lookup \<and>
   udsa_initialized after_failed_field_lookup = 0 \<and>
   udsa_class after_failed_field_lookup = Ptr 101 \<and>
   udsa_pathID after_failed_field_lookup = NULL \<and>
   udsa_ctorID after_failed_field_lookup = NULL \<and>
   \<not> ((udsa_initialized after_failed_field_lookup = 0 \<and>
        udsa_class after_failed_field_lookup = NULL \<and>
        udsa_pathID after_failed_field_lookup = NULL \<and>
        udsa_ctorID after_failed_field_lookup = NULL) \<or>
       (udsa_initialized after_failed_field_lookup \<noteq> 0 \<and>
        udsa_class after_failed_field_lookup \<noteq> NULL \<and>
        udsa_pathID after_failed_field_lookup \<noteq> NULL \<and>
        udsa_ctorID after_failed_field_lookup \<noteq> NULL))"
proof -
  have "reachable after_failed_field_lookup"
    unfolding after_failed_field_lookup_def by (intro reachable.intros)
  then show ?thesis by (simp add: concrete body)
qed

text \<open>
  C2. On a call with the flag clear, if the class lookup, the promotion to a global
  reference, the field lookup and the constructor lookup all answer non-null, the call
  completes without error, the flag is 1 afterwards and the three handles are non-null.
\<close>

theorem init_succeeds:
  assumes "udsa_initialized s = 0"
    and "found_class env \<noteq> NULL" and "global_class env \<noteq> NULL"
    and "found_field env \<noteq> NULL" and "found_ctor env \<noteq> NULL"
  shows "fst (Java_java_nio_channels_UnixDomainSocketAddress_init env dontuse s) = Inr () \<and>
         udsa_initialized (snd (Java_java_nio_channels_UnixDomainSocketAddress_init env dontuse s)) = 1 \<and>
         udsa_class (snd (Java_java_nio_channels_UnixDomainSocketAddress_init env dontuse s)) \<noteq> NULL \<and>
         udsa_pathID (snd (Java_java_nio_channels_UnixDomainSocketAddress_init env dontuse s)) \<noteq> NULL \<and>
         udsa_ctorID (snd (Java_java_nio_channels_UnixDomainSocketAddress_init env dontuse s)) \<noteq> NULL"
  using assms by (simp add: init_all_found)

theorem init_succeeds_witness:
  "udsa_initialized initial_state = 0 \<and>
   found_class env_ok \<noteq> NULL \<and> global_class env_ok \<noteq> NULL \<and>
   found_field env_ok \<noteq> NULL \<and> found_ctor env_ok \<noteq> NULL \<and>
   fst (Java_java_nio_channels_UnixDomainSocketAddress_init env_ok NULL initial_state) = Inr () \<and>
   udsa_initialized (snd (Java_java_nio_channels_UnixDomainSocketAddress_init env_ok NULL initial_state)) = 1 \<and>
   udsa_class (snd (Java_java_nio_channels_UnixDomainSocketAddress_init env_ok NULL initial_state)) \<noteq> NULL \<and>
   udsa_pathID (snd (Java_java_nio_channels_UnixDomainSocketAddress_init env_ok NULL initial_state)) \<noteq> NULL \<and>
   udsa_ctorID (snd (Java_java_nio_channels_UnixDomainSocketAddress_init env_ok NULL initial_state)) \<noteq> NULL"
proof -
  have h: "udsa_initialized initial_state = 0"
    "found_class env_ok \<noteq> NULL" "global_class env_ok \<noteq> NULL"
    "found_field env_ok \<noteq> NULL" "found_ctor env_ok \<noteq> NULL"
    by (simp_all add: concrete answers)
  from init_succeeds [OF h, of NULL] h show ?thesis by simp
qed

text \<open>
  C3 (as amended). Once the flag is set, a call returns at once: no error, no event, the
  state (handles included) unchanged. And from the first call on which every step
  succeeds, N calls in all (that one and any others after it, whatever their runtimes
  answer) perform each of the three lookups exactly once, none of them fails, and the
  handles at the end are those the successful call stored.
\<close>

theorem init_idempotent:
  "(udsa_initialized s \<noteq> 0 \<longrightarrow> Java_java_nio_channels_UnixDomainSocketAddress_init env dontuse s = (Inr (), s)) \<and>
   (udsa_initialized s = 0 \<and> found_class env \<noteq> NULL \<and> global_class env \<noteq> NULL \<and>
    found_field env \<noteq> NULL \<and> found_ctor env \<noteq> NULL \<longrightarrow>
      calls ((env, dontuse) # later) s =
        (replicate (Suc (length later)) (Inr ()),
         s\<lparr>udsa_class := global_class env, udsa_ctorID := found_ctor env,
           udsa_pathID := found_field env, udsa_initialized := 1,
           trace := trace s @ full_events env\<rparr>) \<and>
      length (filter is_Call_FindClass (full_events env)) = 1 \<and>
      length (filter is_Call_GetFieldID (full_events env)) = 1 \<and>
      length (filter is_Call_GetMethodID (full_events env)) = 1)"
proof (intro conjI impI)
  assume "udsa_initialized s \<noteq> 0"
  then show "Java_java_nio_channels_UnixDomainSocketAddress_init env dontuse s = (Inr (), s)" by (rule init_done)
next
  assume h: "udsa_initialized s = 0 \<and> found_class env \<noteq> NULL \<and> global_class env \<noteq> NULL \<and>
    found_field env \<noteq> NULL \<and> found_ctor env \<noteq> NULL"
  then show "calls ((env, dontuse) # later) s =
        (replicate (Suc (length later)) (Inr ()),
         s\<lparr>udsa_class := global_class env, udsa_ctorID := found_ctor env,
           udsa_pathID := found_field env, udsa_initialized := 1,
           trace := trace s @ full_events env\<rparr>)"
    by (simp add: init_all_found calls_done)
qed (simp_all add: full_events_def)

theorem init_idempotent_witness:
  "udsa_initialized after_success \<noteq> 0 \<and>
   Java_java_nio_channels_UnixDomainSocketAddress_init env_no_class NULL after_success = (Inr (), after_success) \<and>
   udsa_initialized after_failed_field_lookup = 0 \<and>
   found_class env_ok' \<noteq> NULL \<and> global_class env_ok' \<noteq> NULL \<and>
   found_field env_ok' \<noteq> NULL \<and> found_ctor env_ok' \<noteq> NULL \<and>
   calls [(env_ok', NULL), (env_ok, NULL), (env_no_class, NULL)] after_failed_field_lookup =
     ([Inr (), Inr (), Inr ()],
      \<lparr>udsa_class = Ptr 202, udsa_ctorID = Ptr 19, udsa_pathID = Ptr 17,
        udsa_initialized = 1,
        trace = trace after_failed_field_lookup @ full_events env_ok'\<rparr>) \<and>
   length (filter is_Call_FindClass (full_events env_ok')) = 1 \<and>
   length (filter is_Call_GetFieldID (full_events env_ok')) = 1 \<and>
   length (filter is_Call_GetMethodID (full_events env_ok')) = 1"
proof -
  have flag_set: "udsa_initialized after_success \<noteq> 0"
    by (simp add: concrete body)
  have h: "udsa_initialized after_failed_field_lookup = 0 \<and>
    found_class env_ok' \<noteq> NULL \<and> global_class env_ok' \<noteq> NULL \<and>
    found_field env_ok' \<noteq> NULL \<and> found_ctor env_ok' \<noteq> NULL"
    by (simp add: concrete body answers)
  have vals: "global_class env_ok' = Ptr 202" "found_ctor env_ok' = Ptr 19"
    "found_field env_ok' = Ptr 17"
    by (simp_all add: concrete answers)
  have st: "after_failed_field_lookup\<lparr>udsa_class := Ptr 202, udsa_ctorID := Ptr 19,
      udsa_pathID := Ptr 17, udsa_initialized := 1,
      trace := trace after_failed_field_lookup @ full_events env_ok'\<rparr> =
    \<lparr>udsa_class = Ptr 202, udsa_ctorID = Ptr 19, udsa_pathID = Ptr 17,
      udsa_initialized = 1,
      trace = trace after_failed_field_lookup @ full_events env_ok'\<rparr>"
    by simp
  from init_idempotent [of after_success env_no_class NULL] flag_set
  have a: "Java_java_nio_channels_UnixDomainSocketAddress_init env_no_class NULL after_success = (Inr (), after_success)"
    by blast
  from init_idempotent [of after_failed_field_lookup env_ok' NULL
      "[(env_ok, NULL), (env_no_class, NULL)]"] h
  have b: "calls [(env_ok', NULL), (env_ok, NULL), (env_no_class, NULL)]
      after_failed_field_lookup =
     ([Inr (), Inr (), Inr ()],
      \<lparr>udsa_class = Ptr 202, udsa_ctorID = Ptr 19, udsa_pathID = Ptr 17,
        udsa_initialized = 1,
        trace = trace after_failed_field_lookup @ full_events env_ok'\<rparr>)"
    and c: "length (filter is_Call_FindClass (full_events env_ok')) = 1"
      "length (filter is_Call_GetFieldID (full_events env_ok')) = 1"
      "length (filter is_Call_GetMethodID (full_events env_ok')) = 1"
    by (simp_all add: vals st)
  from flag_set a h b c show ?thesis by blast
qed

text \<open>
  C3 as stated fails: of two calls, the first with a runtime that does not find the
  class and the second with one that finds everything, both perform the class lookup,
  so after N = 2 calls it has been performed twice.
\<close>

theorem lookups_repeat_counterexample:
  "length (filter is_Call_FindClass
     (trace (snd (calls [(env_no_class, NULL), (env_ok, NULL)] initial_state)))) = 2 \<and>
   length (filter is_Call_FindClass
     (trace (snd (calls [(env_no_class, NULL), (env_ok, NULL)] initial_state)))) \<noteq> 1 \<and>
   fst (calls [(env_no_class, NULL), (env_ok, NULL)] initial_state) =
     [Inl LookupError, Inr ()]"
  by (simp add: concrete body)

text \<open>
  C4. On a call with the flag clear on which the class lookup answers null, the only
  event is that lookup (neither the field nor the constructor lookup is attempted, and
  nothing is stored), the call returns with \<open>LookupError\<close>, and the flag stays clear.
\<close>

theorem type_lookup_failure:
  assumes "udsa_initialized s = 0" and "found_class env = NULL"
  shows "Java_java_nio_channels_UnixDomainSocketAddress_init env dontuse s =
           (Inl LookupError,
            s\<lparr>trace := trace s @
                 [Call_FindClass ''java/nio/channels/UnixDomainSocketAddress'']\<rparr>) \<and>
         udsa_initialized (snd (Java_java_nio_channels_UnixDomainSocketAddress_init env dontuse s)) = 0 \<and>
         filter is_Call_GetFieldID (trace (snd (Java_java_nio_channels_UnixDomainSocketAddress_init env dontuse s))) =
           filter is_Call_GetFieldID (trace s) \<and>
         filter is_Call_GetMethodID (trace (snd (Java_java_nio_channels_UnixDomainSocketAddress_init env dontuse s))) =
           filter is_Call_GetMethodID (trace s)"
  using assms by (simp add: init_no_class full_events_def)

theorem type_lookup_failure_witness:
  "udsa_initialized initial_state = 0 \<and> found_class env_no_class = NULL \<and>
   Java_java_nio_channels_UnixDomainSocketAddress_init env_no_class NULL initial_state =
     (Inl LookupError,
      \<lparr>udsa_class = NULL, udsa_ctorID = NULL, udsa_pathID = NULL, udsa_initialized = 0,
        trace = [Call_FindClass ''java/nio/channels/UnixDomainSocketAddress'']\<rparr>) \<and>
   udsa_initialized (snd (Java_java_nio_channels_UnixDomainSocketAddress_init env_no_class NULL initial_state)) = 0 \<and>
   filter is_Call_GetFieldID (trace (snd (Java_java_nio_channels_UnixDomainSocketAddress_init env_no_class NULL initial_state))) = [] \<and>
   filter is_Call_GetMethodID (trace (snd (Java_java_nio_channels_UnixDomainSocketAddress_init env_no_class NULL initial_state))) = []"
proof -
  have h: "udsa_initialized initial_state = 0" "found_class env_no_class = NULL"
    by (simp_all add: concrete answers)
  from type_lookup_failure [OF h, of NULL] h show ?thesis
    by (simp add: initial_state_def)
qed

text \<open>
  C5. On a call with the flag clear on which the class is found and made global but the
  field lookup answers null, the call returns with \<open>LookupError\<close> after the field
  lookup: the constructor lookup is not attempted, the flag stays clear, and
  \<open>udsa_class\<close> holds the (non-null) global reference.
\<close>

theorem field_lookup_failure:
  assumes "udsa_initialized s = 0"
    and "found_class env \<noteq> NULL" and "global_class env \<noteq> NULL"
    and "found_field env = NULL"
  shows "Java_java_nio_channels_UnixDomainSocketAddress_init env dontuse s =
           (Inl LookupError,
            s\<lparr>udsa_class := global_class env, udsa_pathID := NULL,
              trace := trace s @
                [Call_FindClass ''java/nio/channels/UnixDomainSocketAddress'',
                 Call_NewGlobalRef (found_class env),
                 Store_udsa_class (global_class env),
                 Call_GetFieldID (global_class env) ''pathname'' ''Ljava/lang/String;'',
                 Store_udsa_pathID NULL]\<rparr>) \<and>
         filter is_Call_GetMethodID (trace (snd (Java_java_nio_channels_UnixDomainSocketAddress_init env dontuse s))) =
           filter is_Call_GetMethodID (trace s) \<and>
         udsa_initialized (snd (Java_java_nio_channels_UnixDomainSocketAddress_init env dontuse s)) = 0 \<and>
         udsa_class (snd (Java_java_nio_channels_UnixDomainSocketAddress_init env dontuse s)) = global_class env \<and>
         udsa_class (snd (Java_java_nio_channels_UnixDomainSocketAddress_init env dontuse s)) \<noteq> NULL"
  using assms by (simp add: init_no_field full_events_def)

theorem field_lookup_failure_witness:
  "udsa_initialized initial_state = 0 \<and>
   found_class env_no_field \<noteq> NULL \<and> global_class env_no_field \<noteq> NULL \<and>
   found_field env_no_field = NULL \<and>
   Java_java_nio_channels_UnixDomainSocketAddress_init env_no_field NULL initial_state =
     (Inl LookupError,
      \<lparr>udsa_class = Ptr 101, udsa_ctorID = NULL, udsa_pathID = NULL, udsa_initialized = 0,
        trace =
          [Call_FindClass ''java/nio/channels/UnixDomainSocketAddress'',
           Call_NewGlobalRef (Ptr 1),
           Store_udsa_class (Ptr 101),
           Call_GetFieldID (Ptr 101) ''pathname'' ''Ljava/lang/String;'',
           Store_udsa_pathID NULL]\<rparr>) \<and>
   filter is_Call_GetMethodID (trace (snd (Java_java_nio_channels_UnixDomainSocketAddress_init env_no_field NULL initial_state))) = [] \<and>
   udsa_initialized (snd (Java_java_nio_channels_UnixDomainSocketAddress_init env_no_field NULL initial_state)) = 0 \<and>
   udsa_class (snd (Java_java_nio_channels_UnixDomainSocketAddress_init env_no_field NULL initial_state)) = Ptr 101"
proof -
  have h: "udsa_initialized initial_state = 0"
    "found_class env_no_field \<noteq> NULL" "global_class env_no_field \<noteq> NULL"
    "found_field env_no_field = NULL"
    by (simp_all add: concrete answers)
  have vals: "found_class env_no_field = Ptr 1" "global_class env_no_field = Ptr 101"
    by (simp_all add: concrete answers)
  from field_lookup_failure [OF h, of NULL] h show ?thesis
    by (simp add: initial_state_def vals)
qed

text \<open>
  C6. On a call with the flag clear, the events are an initial segment of one fixed
  sequence: the class lookup by name, the promotion to a global reference and its
  store, the field lookup and its store, the constructor lookup and its store, the
  store of the flag. The segment ends right after the first step that answers null (1,
  3, 5 or 7 events), and is the whole sequence only when no step does. So the last
  event of the call is the store of the flag exactly when every step succeeded, which
  is also exactly when the flag is 1 afterwards and when the call reports no error.
\<close>

theorem init_steps_in_order:
  assumes "udsa_initialized s = 0"
  shows "full_events env =
           [Call_FindClass ''java/nio/channels/UnixDomainSocketAddress'',
            Call_NewGlobalRef (found_class env),
            Store_udsa_class (global_class env),
            Call_GetFieldID (global_class env) ''pathname'' ''Ljava/lang/String;'',
            Store_udsa_pathID (found_field env),
            Call_GetMethodID (global_class env) ''<init>'' ''(Ljava/lang/String;)V'',
            Store_udsa_ctorID (found_ctor env),
            Store_udsa_initialized 1] \<and>
         trace (snd (Java_java_nio_channels_UnixDomainSocketAddress_init env dontuse s)) =
           trace s @
           take (if found_class env = NULL then 1
                 else if global_class env = NULL then 3
                 else if found_field env = NULL then 5
                 else if found_ctor env = NULL then 7
                 else 8) (full_events env) \<and>
         (last (trace (snd (Java_java_nio_channels_UnixDomainSocketAddress_init env dontuse s))) = Store_udsa_initialized 1) =
           (found_class env \<noteq> NULL \<and> global_class env \<noteq> NULL \<and>
            found_field env \<noteq> NULL \<and> found_ctor env \<noteq> NULL) \<and>
         (udsa_initialized (snd (Java_java_nio_channels_UnixDomainSocketAddress_init env dontuse s)) = 1) =
           (found_class env \<noteq> NULL \<and> global_class env \<noteq> NULL \<and>
            found_field env \<noteq> NULL \<and> found_ctor env \<noteq> NULL) \<and>
         (fst (Java_java_nio_channels_UnixDomainSocketAddress_init env dontuse s) = Inr ()) =
           (found_class env \<noteq> NULL \<and> global_class env \<noteq> NULL \<and>
            found_field env \<noteq> NULL \<and> found_ctor env \<noteq> NULL)"
proof -
  consider
    (no_class) "found_class env = NULL"
    | (no_global) "found_class env \<noteq> NULL" "global_class env = NULL"
    | (no_field) "found_class env \<noteq> NULL" "global_class env \<noteq> NULL" "found_field env = NULL"
    | (no_ctor) "found_class env \<noteq> NULL" "global_class env \<noteq> NULL"
        "found_field env \<noteq> NULL" "found_ctor env = NULL"
    | (all_found) "found_class env \<noteq> NULL" "global_class env \<noteq> NULL"
        "found_field env \<noteq> NULL" "found_ctor env \<noteq> NULL"
    by blast
  then show ?thesis
  proof cases
    case no_class
    with assms show ?thesis by (simp add: init_no_class full_events_def)
  next
    case no_global
    with assms show ?thesis by (simp add: init_no_global full_events_def)
  next
    case no_field
    with assms show ?thesis by (simp add: init_no_field full_events_def)
  next
    case no_ctor
    with assms show ?thesis by (simp add: init_no_ctor full_events_def)
  next
    case all_found
    with assms show ?thesis by (simp add: init_all_found full_events_def)
  qed
qed

theorem init_steps_in_order_witness:
  "udsa_initialized initial_state = 0 \<and>
   trace (snd (Java_java_nio_channels_UnixDomainSocketAddress_init env_no_ctor NULL initial_state)) =
     [Call_FindClass ''java/nio/channels/UnixDomainSocketAddress'',
      Call_NewGlobalRef (Ptr 1),
      Store_udsa_class (Ptr 101),
      Call_GetFieldID (Ptr 101) ''pathname'' ''Ljava/lang/String;'',
      Store_udsa_pathID (Ptr 7),
      Call_GetMethodID (Ptr 101) ''<init>'' ''(Ljava/lang/String;)V'',
      Store_udsa_ctorID NULL] \<and>
   last (trace (snd (Java_java_nio_channels_UnixDomainSocketAddress_init env_no_ctor NULL initial_state))) \<noteq> Store_udsa_initialized 1 \<and>
   udsa_initialized (snd (Java_java_nio_channels_UnixDomainSocketAddress_init env_no_ctor NULL initial_state)) \<noteq> 1 \<and>
   fst (Java_java_nio_channels_UnixDomainSocketAddress_init env_no_ctor NULL initial_state) \<noteq> Inr ()"
proof -
  have h: "udsa_initialized initial_state = 0"
    by (simp add: initial_state_def)
  have vals: "found_class env_no_ctor = Ptr 1" "global_class env_no_ctor = Ptr 101"
    "found_field env_no_ctor = Ptr 7" "found_ctor env_no_ctor = NULL"
    by (simp_all add: concrete answers)
  from init_steps_in_order [OF h, of env_no_ctor NULL] h show ?thesis
    by (simp add: vals initial_state_def)
qed

text \<open>
  C7. On a call with the flag clear on which the class is found and made global, and
  then the field lookup or the constructor lookup answers null, the call returns with
  \<open>LookupError\<close> and \<open>udsa_class\<close> still holds the global reference: it is not reset,
  and the call makes no call that releases a global reference.
\<close>

theorem global_reference_not_released:
  assumes "udsa_initialized s = 0"
    and "found_class env \<noteq> NULL" and "global_class env \<noteq> NULL"
    and "found_field env = NULL \<or> found_ctor env = NULL"
  shows "fst (Java_java_nio_channels_UnixDomainSocketAddress_init env dontuse s) = Inl LookupError \<and>
         udsa_class (snd (Java_java_nio_channels_UnixDomainSocketAddress_init env dontuse s)) = global_class env \<and>
         udsa_class (snd (Java_java_nio_channels_UnixDomainSocketAddress_init env dontuse s)) \<noteq> NULL \<and>
         filter is_Call_DeleteGlobalRef (trace (snd (Java_java_nio_channels_UnixDomainSocketAddress_init env dontuse s))) =
           filter is_Call_DeleteGlobalRef (trace s)"
proof (cases "found_field env = NULL")
  case True
  with assms show ?thesis by (simp add: init_no_field full_events_def)
next
  case False
  with assms have "found_ctor env = NULL" by simp
  with False assms show ?thesis by (simp add: init_no_ctor full_events_def)
qed

theorem global_reference_not_released_witness:
  "udsa_initialized initial_state = 0 \<and>
   found_class env_no_field \<noteq> NULL \<and> global_class env_no_field \<noteq> NULL \<and>
   found_field env_no_field = NULL \<and>
   fst (Java_java_nio_channels_UnixDomainSocketAddress_init env_no_field NULL initial_state) = Inl LookupError \<and>
   udsa_class (snd (Java_java_nio_channels_UnixDomainSocketAddress_init env_no_field NULL initial_state)) = Ptr 101 \<and>
   filter is_Call_DeleteGlobalRef (trace (snd (Java_java_nio_channels_UnixDomainSocketAddress_init env_no_field NULL initial_state))) = [] \<and>
   found_class env_no_ctor \<noteq> NULL \<and> global_class env_no_ctor \<noteq> NULL \<and>
   found_ctor env_no_ctor = NULL \<and>
   fst (Java_java_nio_channels_UnixDomainSocketAddress_init env_no_ctor NULL initial_state) = Inl LookupError \<and>
   udsa_class (snd (Java_java_nio_channels_UnixDomainSocketAddress_init env_no_ctor NULL initial_state)) = Ptr 101 \<and>
   filter is_Call_DeleteGlobalRef (trace (snd (Java_java_nio_channels_UnixDomainSocketAddress_init env_no_ctor NULL initial_state))) = []"
proof -
  have h: "udsa_initialized initial_state = 0"
    by (simp add: initial_state_def)
  have f: "found_class env_no_field \<noteq> NULL" "global_class env_no_field \<noteq> NULL"
    "found_field env_no_field = NULL \<or> found_ctor env_no_field = NULL"
    by (simp_all add: concrete answers)
  have c: "found_class env_no_ctor \<noteq> NULL" "global_class env_no_ctor \<noteq> NULL"
    "found_field env_no_ctor = NULL \<or> found_ctor env_no_ctor = NULL"
    by (simp_all add: concrete answers)
  have vals: "global_class env_no_field = Ptr 101" "found_field env_no_field = NULL"
    "global_class env_no_ctor = Ptr 101" "found_ctor env_no_ctor = NULL"
    by (simp_all add: concrete answers)
  from global_reference_not_released [OF h f, of NULL]
    global_reference_not_released [OF h c, of NULL] h f(1) c(1)
  show ?thesis
    by (simp add: vals initial_state_def)
qed

text \<open>
  C8. Once the flag is set, no sequence of calls changes anything: every call returns
  without error and the state after them (flag, handles and history of events) is the
  state before them, so nothing is looked up again and the state never goes back to
  uninitialized. And in every reachable state the flag is 0 or 1 and the history holds
  at most one store to the flag, a store of 1, present exactly when the flag is set.
\<close>

theorem flag_set_once:
  "(udsa_initialized s \<noteq> 0 \<longrightarrow> calls cs s = (replicate (length cs) (Inr ()), s)) \<and>
   (reachable s \<longrightarrow>
      (udsa_initialized s = 0 \<or> udsa_initialized s = 1) \<and>
      filter is_Store_udsa_initialized (trace s) =
        (if udsa_initialized s = 0 then [] else [Store_udsa_initialized 1]))"
proof (intro conjI impI)
  assume "udsa_initialized s \<noteq> 0"
  then show "calls cs s = (replicate (length cs) (Inr ()), s)" by (rule calls_done)
next
  assume "reachable s"
  from reachable_invariant [OF this]
  show "udsa_initialized s = 0 \<or> udsa_initialized s = 1" by blast
next
  assume "reachable s"
  from reachable_invariant [OF this]
  show "filter is_Store_udsa_initialized (trace s) =
        (if udsa_initialized s = 0 then [] else [Store_udsa_initialized 1])"
    by auto
qed

theorem flag_set_once_witness:
  "reachable (snd (calls [(env_no_field, NULL), (env_ok', NULL)] initial_state)) \<and>
   udsa_initialized (snd (calls [(env_no_field, NULL), (env_ok', NULL)] initial_state)) = 1 \<and>
   calls [(env_ok, NULL), (env_no_class, NULL)]
       (snd (calls [(env_no_field, NULL), (env_ok', NULL)] initial_state)) =
     ([Inr (), Inr ()], snd (calls [(env_no_field, NULL), (env_ok', NULL)] initial_state)) \<and>
   filter is_Store_udsa_initialized
       (trace (snd (calls [(env_no_field, NULL), (env_ok', NULL)] initial_state))) =
     [Store_udsa_initialized 1]"
proof -
  have r: "reachable (snd (calls [(env_no_field, NULL), (env_ok', NULL)] initial_state))"
    by (rule calls_reachable [OF reachable_initial])
  have f: "udsa_initialized
      (snd (calls [(env_no_field, NULL), (env_ok', NULL)] initial_state)) = 1"
    by (simp add: concrete body)
  from flag_set_once
    [of "snd (calls [(env_no_field, NULL), (env_ok', NULL)] initial_state)"
      "[(env_ok, NULL), (env_no_class, NULL)]"] r f
  show ?thesis by simp
qed

text \<open>
  C9. After a call that returned with \<open>LookupError\<close> the flag is clear, and a later
  call on which every step succeeds runs the whole sequence again, from the class
  lookup on: it returns without error, sets the flag, and stores the global reference,
  the field and the constructor it obtained itself, whatever the failed call left in
  the handles. Its events hold no call that releases a global reference, so a
  reference the failed call stored in \<open>udsa_class\<close> is overwritten, not released.
\<close>

theorem failed_init_retryable:
  assumes "Java_java_nio_channels_UnixDomainSocketAddress_init env1 dontuse1 s0 = (Inl e, s1)"
    and "found_class env2 \<noteq> NULL" and "global_class env2 \<noteq> NULL"
    and "found_field env2 \<noteq> NULL" and "found_ctor env2 \<noteq> NULL"
  shows "udsa_initialized s1 = 0 \<and>
         Java_java_nio_channels_UnixDomainSocketAddress_init env2 dontuse2 s1 =
           (Inr (),
            s1\<lparr>udsa_class := global_class env2, udsa_ctorID := found_ctor env2,
               udsa_pathID := found_field env2, udsa_initialized := 1,
               trace := trace s1 @
                 [Call_FindClass ''java/nio/channels/UnixDomainSocketAddress'',
                  Call_NewGlobalRef (found_class env2),
                  Store_udsa_class (global_class env2),
                  Call_GetFieldID (global_class env2) ''pathname'' ''Ljava/lang/String;'',
                  Store_udsa_pathID (found_field env2),
                  Call_GetMethodID (global_class env2) ''<init>'' ''(Ljava/lang/String;)V'',
                  Store_udsa_ctorID (found_ctor env2),
                  Store_udsa_initialized 1]\<rparr>)"
proof -
  from assms(1) have flag: "udsa_initialized s1 = 0"
    using init_error_flag by blast
  with assms(2-) show ?thesis
    by (simp add: init_all_found full_events_def)
qed

theorem failed_init_retryable_witness:
  "Java_java_nio_channels_UnixDomainSocketAddress_init env_no_field NULL initial_state = (Inl LookupError, after_failed_field_lookup) \<and>
   found_class env_ok' \<noteq> NULL \<and> global_class env_ok' \<noteq> NULL \<and>
   found_field env_ok' \<noteq> NULL \<and> found_ctor env_ok' \<noteq> NULL \<and>
   udsa_class after_failed_field_lookup = Ptr 101 \<and>
   udsa_initialized after_failed_field_lookup = 0 \<and>
   Java_java_nio_channels_UnixDomainSocketAddress_init env_ok' NULL after_failed_field_lookup =
     (Inr (),
      \<lparr>udsa_class = Ptr 202, udsa_ctorID = Ptr 19, udsa_pathID = Ptr 17,
        udsa_initialized = 1,
        trace = trace after_failed_field_lookup @
          [Call_FindClass ''java/nio/channels/UnixDomainSocketAddress'',
           Call_NewGlobalRef (Ptr 2),
           Store_udsa_class (Ptr 202),
           Call_GetFieldID (Ptr 202) ''pathname'' ''Ljava/lang/String;'',
           Store_udsa_pathID (Ptr 17),
           Call_GetMethodID (Ptr 202) ''<init>'' ''(Ljava/lang/String;)V'',
           Store_udsa_ctorID (Ptr 19),
           Store_udsa_initialized 1]\<rparr>)"
proof -
  have failed: "Java_java_nio_channels_UnixDomainSocketAddress_init env_no_field NULL initial_state =
      (Inl LookupError, after_failed_field_lookup)"
    by (simp add: concrete body)
  have h: "found_class env_ok' \<noteq> NULL" "global_class env_ok' \<noteq> NULL"
    "found_field env_ok' \<noteq> NULL" "found_ctor env_ok' \<noteq> NULL"
    by (simp_all add: concrete answers)
  have vals: "found_class env_ok' = Ptr 2" "global_class env_ok' = Ptr 202"
    "found_field env_ok' = Ptr 17" "found_ctor env_ok' = Ptr 19"
    by (simp_all add: concrete answers)
  have old: "udsa_class after_failed_field_lookup = Ptr 101"
    by (simp add: concrete body)
  have st: "after_failed_field_lookup\<lparr>udsa_class := c, udsa_ctorID := m,
      udsa_pathID := f, udsa_initialized := 1, trace := t\<rparr> =
    \<lparr>udsa_class = c, udsa_ctorID = m, udsa_pathID = f, udsa_initialized = 1, trace = t\<rparr>"
    for c m f t
    by simp
  from failed_init_retryable [OF failed h, of NULL] failed h old show ?thesis
    by (simp add: vals st)
qed

text \<open>
  C10. Each handle variable is stored before it is tested. On a call with the flag clear
  on which the class is found: if the promotion to a global reference answers null,
  \<open>udsa_class\<close> is overwritten with null and \<open>udsa_pathID\<close> and \<open>udsa_ctorID\<close> keep
  their values; if the field lookup answers null, \<open>udsa_pathID\<close> is overwritten with
  null and \<open>udsa_ctorID\<close> keeps its value; if the constructor lookup answers null,
  \<open>udsa_ctorID\<close> is overwritten with null. In each case the flag is left as it was.
  The instance below starts from the state a failed constructor lookup left, in which
  \<open>udsa_class\<close> and \<open>udsa_pathID\<close> are set.
\<close>

theorem failing_step_stores_null:
  assumes "udsa_initialized s = 0" and "found_class env \<noteq> NULL"
  shows "(global_class env = NULL \<longrightarrow>
            snd (Java_java_nio_channels_UnixDomainSocketAddress_init env dontuse s) =
              s\<lparr>udsa_class := NULL,
                trace := trace s @
                  [Call_FindClass ''java/nio/channels/UnixDomainSocketAddress'',
                   Call_NewGlobalRef (found_class env),
                   Store_udsa_class NULL]\<rparr>) \<and>
         (global_class env \<noteq> NULL \<and> found_field env = NULL \<longrightarrow>
            snd (Java_java_nio_channels_UnixDomainSocketAddress_init env dontuse s) =
              s\<lparr>udsa_class := global_class env, udsa_pathID := NULL,
                trace := trace s @
                  [Call_FindClass ''java/nio/channels/UnixDomainSocketAddress'',
                   Call_NewGlobalRef (found_class env),
                   Store_udsa_class (global_class env),
                   Call_GetFieldID (global_class env) ''pathname'' ''Ljava/lang/String;'',
                   Store_udsa_pathID NULL]\<rparr>) \<and>
         (global_class env \<noteq> NULL \<and> found_field env \<noteq> NULL \<and> found_ctor env = NULL \<longrightarrow>
            snd (Java_java_nio_channels_UnixDomainSocketAddress_init env dontuse s) =
              s\<lparr>udsa_class := global_class env, udsa_pathID := found_field env,
                udsa_ctorID := NULL,
                trace := trace s @
                  [Call_FindClass ''java/nio/channels/UnixDomainSocketAddress'',
                   Call_NewGlobalRef (found_class env),
                   Store_udsa_class (global_class env),
                   Call_GetFieldID (global_class env) ''pathname'' ''Ljava/lang/String;'',
                   Store_udsa_pathID (found_field env),
                   Call_GetMethodID (global_class env) ''<init>'' ''(Ljava/lang/String;)V'',
                   Store_udsa_ctorID NULL]\<rparr>)"
proof (intro conjI impI)
  assume "global_class env = NULL"
  with assms show "snd (Java_java_nio_channels_UnixDomainSocketAddress_init env dontuse s) =
      s\<lparr>udsa_class := NULL,
        trace := trace s @
          [Call_FindClass ''java/nio/channels/UnixDomainSocketAddress'',
           Call_NewGlobalRef (found_class env),
           Store_udsa_class NULL]\<rparr>"
    by (simp add: init_no_global full_events_def)
next
  assume "global_class env \<noteq> NULL \<and> found_field env = NULL"
  with assms show "snd (Java_java_nio_channels_UnixDomainSocketAddress_init env dontuse s) =
      s\<lparr>udsa_class := global_class env, udsa_pathID := NULL,
        trace := trace s @
          [Call_FindClass ''java/nio/channels/UnixDomainSocketAddress'',
           Call_NewGlobalRef (found_class env),
           Store_udsa_class (global_class env),
           Call_GetFieldID (global_class env) ''pathname'' ''Ljava/lang/String;'',
           Store_udsa_pathID NULL]\<rparr>"
    by (simp add: init_no_field full_events_def)
next
  assume "global_class env \<noteq> NULL \<and> found_field env \<noteq> NULL \<and> found_ctor env = NULL"
  with assms show "snd (Java_java_nio_channels_UnixDomainSocketAddress_init env dontuse s) =
      s\<lparr>udsa_class := global_class env, udsa_pathID := found_field env,
        udsa_ctorID := NULL,
        trace := trace s @
          [Call_FindClass ''java/nio/channels/UnixDomainSocketAddress'',
           Call_NewGlobalRef (found_class env),
           Store_udsa_class (global_class env),
           Call_GetFieldID (global_class env) ''pathname'' ''Ljava/lang/String;'',
           Store_udsa_pathID (found_field env),
           Call_GetMethodID (global_class env) ''<init>'' ''(Ljava/lang/String;)V'',
           Store_udsa_ctorID NULL]\<rparr>"
    by (simp add: init_no_ctor full_events_def)
qed

theorem failing_step_stores_null_witness:
  "udsa_initialized after_failed_ctor_lookup = 0 \<and>
   udsa_class after_failed_ctor_lookup = Ptr 101 \<and>
   udsa_pathID after_failed_ctor_lookup = Ptr 7 \<and>
   udsa_ctorID after_failed_ctor_lookup = NULL \<and>
   found_class env_no_global \<noteq> NULL \<and> global_class env_no_global = NULL \<and>
   udsa_class (snd (Java_java_nio_channels_UnixDomainSocketAddress_init env_no_global NULL after_failed_ctor_lookup)) = NULL \<and>
   udsa_pathID (snd (Java_java_nio_channels_UnixDomainSocketAddress_init env_no_global NULL after_failed_ctor_lookup)) = Ptr 7 \<and>
   udsa_ctorID (snd (Java_java_nio_channels_UnixDomainSocketAddress_init env_no_global NULL after_failed_ctor_lookup)) = NULL \<and>
   udsa_initialized (snd (Java_java_nio_channels_UnixDomainSocketAddress_init env_no_global NULL after_failed_ctor_lookup)) = 0 \<and>
   found_class env_no_field \<noteq> NULL \<and> global_class env_no_field \<noteq> NULL \<and>
   found_field env_no_field = NULL \<and>
   udsa_class (snd (Java_java_nio_channels_UnixDomainSocketAddress_init env_no_field NULL after_failed_ctor_lookup)) = Ptr 101 \<and>
   udsa_pathID (snd (Java_java_nio_channels_UnixDomainSocketAddress_init env_no_field NULL after_failed_ctor_lookup)) = NULL \<and>
   udsa_ctorID (snd (Java_java_nio_channels_UnixDomainSocketAddress_init env_no_field NULL after_failed_ctor_lookup)) = NULL \<and>
   udsa_initialized (snd (Java_java_nio_channels_UnixDomainSocketAddress_init env_no_field NULL after_failed_ctor_lookup)) = 0 \<and>
   found_class env_no_ctor \<noteq> NULL \<and> global_class env_no_ctor \<noteq> NULL \<and>
   found_field env_no_ctor \<noteq> NULL \<and> found_ctor env_no_ctor = NULL \<and>
   udsa_class (snd (Java_java_nio_channels_UnixDomainSocketAddress_init env_no_ctor NULL after_failed_ctor_lookup)) = Ptr 101 \<and>
   udsa_pathID (snd (Java_java_nio_channels_UnixDomainSocketAddress_init env_no_ctor NULL after_failed_ctor_lookup)) = Ptr 7 \<and>
   udsa_ctorID (snd (Java_java_nio_channels_UnixDomainSocketAddress_init env_no_ctor NULL after_failed_ctor_lookup)) = NULL \<and>
   udsa_initialized (snd (Java_java_nio_channels_UnixDomainSocketAddress_init env_no_ctor NULL after_failed_ctor_lookup)) = 0 \<and>
   trace (snd (Java_java_nio_channels_UnixDomainSocketAddress_init env_no_global NULL after_failed_ctor_lookup)) =
     trace after_failed_ctor_lookup @
       [Call_FindClass ''java/nio/channels/UnixDomainSocketAddress'',
        Call_NewGlobalRef (Ptr 1),
        Store_udsa_class NULL]"
proof -
  have h: "udsa_initialized after_failed_ctor_lookup = 0"
    by (simp add: concrete body)
  have old: "udsa_class after_failed_ctor_lookup = Ptr 101"
    "udsa_pathID after_failed_ctor_lookup = Ptr 7"
    "udsa_ctorID after_failed_ctor_lookup = NULL"
    by (simp_all add: concrete body)
  have g: "found_class env_no_global = Ptr 1" "global_class env_no_global = NULL"
    by (simp_all add: concrete answers)
  have f: "found_class env_no_field = Ptr 1" "global_class env_no_field = Ptr 101"
    "found_field env_no_field = NULL"
    by (simp_all add: concrete answers)
  have c: "found_class env_no_ctor = Ptr 1" "global_class env_no_ctor = Ptr 101"
    "found_field env_no_ctor = Ptr 7" "found_ctor env_no_ctor = NULL"
    by (simp_all add: concrete answers)
  have ne: "found_class env_no_global \<noteq> NULL" "found_class env_no_field \<noteq> NULL"
    "found_class env_no_ctor \<noteq> NULL"
    by (simp_all add: g f c)
  from failing_step_stores_null [OF h ne(1), of NULL]
    failing_step_stores_null [OF h ne(2), of NULL]
    failing_step_stores_null [OF h ne(3), of NULL]
  show ?thesis
    by (simp add: g f c h old)
qed

end
